theory Spec2Isabelle
  imports Complex_Main "HOL-Library.Sublist" "HOL-Library.Word"
begin

section \<open>Strings\<close>

text \<open>
  Strings are lists of code units; the model covers the Latin-1 range, which an Isabelle
  \<open>char\<close> holds. \<open>isWhiteSpace\<close> is the white space and line terminator set that
  \<open>String.prototype.trim\<close> strips, restricted to that range: TAB, LF, VT, FF, CR, SP
  and NBSP.
\<close>

definition isWhiteSpace :: "char \<Rightarrow> bool" where
  "isWhiteSpace c \<longleftrightarrow>
     c = CHR 0x09 \<or> c = CHR 0x0A \<or> c = CHR 0x0B \<or> c = CHR 0x0C \<or> c = CHR 0x0D \<or>
     c = CHR 0x20 \<or> c = CHR 0xA0"

definition trim :: "string \<Rightarrow> string" where
  "trim s = rev (dropWhile isWhiteSpace (rev (dropWhile isWhiteSpace s)))"

text \<open>
  \<open>s.split(',')\<close> with a one-character separator: the pieces between the separators,
  in order. The result always has at least one piece (\<open>"".split(',')\<close> is \<open>[""]\<close>).
\<close>

fun split :: "char \<Rightarrow> string \<Rightarrow> string list" where
  "split sep [] = [[]]"
| "split sep (c # cs) =
     (if c = sep then [] # split sep cs
      else (case split sep cs of
              [] \<Rightarrow> [[c]]
            | p # ps \<Rightarrow> (c # p) # ps))"

text \<open>\<open>xs.join(sep)\<close> on an array of strings.\<close>

fun join :: "string \<Rightarrow> string list \<Rightarrow> string" where
  "join sep [] = []"
| "join sep [x] = x"
| "join sep (x # y # ys) = x @ sep @ join sep (y # ys)"

text \<open>\<open>s.includes(sub)\<close>: \<open>sub\<close> occurs in \<open>s\<close> as a contiguous run.\<close>

definition includes_str :: "string \<Rightarrow> string \<Rightarrow> bool" where
  "includes_str s sub = sublist sub s"

section \<open>types.ts\<close>

datatype ProficiencyLevel = A1 | A2

datatype InteractionMode = TEXT | SPEECH

text \<open>The string value of each enum member (\<open>A1 = 'A1'\<close>, \<open>A2 = 'A2'\<close>).\<close>

fun level_value :: "ProficiencyLevel \<Rightarrow> string" where
  "level_value A1 = ''A1''"
| "level_value A2 = ''A2''"

record AppConfig =
  level :: ProficiencyLevel
  words :: "string list"
  topic :: string
  mode :: InteractionMode

datatype role = User | Model

record ChatMessage =
  msg_role :: role
  msg_text :: string
  timestamp :: nat

section \<open>SetupForm.handleSubmit\<close>

text \<open>
  The component state of \<open>SetupForm\<close>. Its fields \<open>level\<close>, \<open>topic\<close>, \<open>mode\<close> and
  \<open>error\<close> carry the prefix \<open>form_\<close> here, since \<open>AppConfig\<close> has fields of the same
  names.
\<close>

record SetupForm =
  form_level :: ProficiencyLevel
  wordsInput :: string
  form_topic :: string
  form_mode :: InteractionMode
  form_error :: string

text \<open>The initial \<open>useState\<close> values.\<close>

definition SetupForm_init :: SetupForm where
  "SetupForm_init =
     \<lparr>form_level = A1, wordsInput = ''maison, chat, manger, aimer, le livre'',
      form_topic = [], form_mode = TEXT, form_error = []\<rparr>"

definition parse_words :: "string \<Rightarrow> string list" where
  "parse_words inp = filter (\<lambda>w. length w > 0) (map trim (split CHR '','' inp))"

text \<open>
  \<open>handleSubmit\<close> returns the component state after the handler and the config it passes
  to \<open>onStart\<close>, if it calls \<open>onStart\<close>. \<open>topic || 'Daily Life'\<close> takes the right operand
  exactly when \<open>topic\<close> is the empty string.
\<close>

definition handleSubmit :: "SetupForm \<Rightarrow> SetupForm \<times> AppConfig option" where
  "handleSubmit f =
     (let ws = parse_words (wordsInput f) in
      if length ws < 1
      then (f\<lparr>form_error := ''Please provide at least a few words.''\<rparr>, None)
      else (f, Some \<lparr>level = form_level f,
                     words = ws,
                     topic = (if form_topic f = [] then ''Daily Life'' else form_topic f),
                     mode = form_mode f\<rparr>))"

section \<open>services/gemini.ts: the system instruction\<close>

definition nl :: string where
  "nl = [CHR 0x0A]"

definition SYSTEM_INSTRUCTION_TEMPLATE :: "AppConfig \<Rightarrow> string" where
  "SYSTEM_INSTRUCTION_TEMPLATE config =
     nl @ ''Role: French Vocabulary Conversation Partner.'' @
     nl @ ''Objective: Act as an encouraging French tutor focused on '' @
            level_value (level config) @ '' proficiency.'' @
     nl @ ''Context: '' @
            (if topic config = [] then ''General Conversation'' else topic config) @ ''.'' @
     nl @ ''Target Words: '' @ join '', '' (words config) @ ''.'' @
     nl @
     nl @ ''Rules:'' @
     nl @ ''1. Respond entirely in French.'' @
     nl @ ''2. Integrate target words naturally over time.'' @
     nl @ ''3. If using a word beyond '' @ level_value (level config) @
            '', provide inline translation: word [meaning].'' @
     nl @ ''4. Keep responses short (1-3 sentences).'' @
     nl @ ''5. Do not correct mistakes immediately; model correct usage in your response.'' @
     nl @ ''6. Ask 1-2 questions at a time to keep conversation flowing.'' @
     nl @ ''7. If the user wants to stop, provide a short English summary of their performance.'' @
     nl"

section \<open>services/gemini.ts: GeminiLiveService\<close>

text \<open>
  The browser and SDK objects the service holds (audio contexts, the media stream's tracks,
  audio nodes, the session promise) are opaque to the code; the model names each by a
  handle.
\<close>

type_synonym handle = nat

text \<open>
  A playback source made by \<open>createBufferSource\<close>, with the \<open>when\<close> argument of its
  \<open>start\<close> call and the duration of its buffer.
\<close>

record AudioBufferSourceNode =
  node :: handle
  start_when :: real
  buffer_duration :: real

text \<open>
  The fields of the class. \<open>sources\<close> is a JavaScript \<open>Set\<close>: it iterates in insertion
  order and every added node is a new object, so it is a list here. \<open>stream\<close> is the
  \<open>MediaStream\<close>, given by its tracks. \<open>onVolumeChange\<close> says whether a callback is
  installed.
\<close>

record GeminiLiveService =
  sessionPromise :: "handle option"
  inputAudioContext :: "handle option"
  outputAudioContext :: "handle option"
  nextStartTime :: real
  sources :: "AudioBufferSourceNode list"
  stream :: "handle list option"
  processor :: "handle option"
  inputSource :: "handle option"
  gainNode :: "handle option"
  onVolumeChange :: bool

text \<open>The field initialisers of the class: a never-connected instance.\<close>

definition GeminiLiveService_new :: GeminiLiveService where
  "GeminiLiveService_new =
     \<lparr>sessionPromise = None, inputAudioContext = None, outputAudioContext = None,
      nextStartTime = 0, sources = [], stream = None, processor = None,
      inputSource = None, gainNode = None, onVolumeChange = False\<rparr>"

datatype js_error =
  PermissionError | ChatNotInitialized | RequestFailed | TypeError | FormatError

text \<open>
  What the browser hands to \<open>connect\<close>: the two new audio contexts, the outcome of
  \<open>getUserMedia\<close> (the tracks of the stream, or a rejection) and the promise that
  \<open>ai.live.connect\<close> returns.
\<close>

datatype media_result = Granted "handle list" | Denied

record browser =
  new_input_context :: handle
  new_output_context :: handle
  user_media :: media_result
  live_session :: handle

text \<open>
  \<open>connect\<close>: both contexts are stored before \<open>await getUserMedia\<close>; a rejection there
  leaves \<open>connect\<close> rejected with the contexts already set. Otherwise the stream and the
  promise returned by \<open>ai.live.connect\<close> are stored and \<open>connect\<close> resolves: the promise
  is stored, not awaited, so the outcome of the handshake is not part of the result. It
  arrives later through the callbacks \<open>onopen\<close>, \<open>onerror\<close> and \<open>onclose\<close>. The session
  is configured with \<open>SYSTEM_INSTRUCTION_TEMPLATE config\<close>.
\<close>

definition connect ::
  "browser \<Rightarrow> AppConfig \<Rightarrow> GeminiLiveService \<Rightarrow> js_error option \<times> GeminiLiveService" where
  "connect b config s =
     (let s1 = s\<lparr>inputAudioContext := Some (new_input_context b),
                 outputAudioContext := Some (new_output_context b)\<rparr>
      in case user_media b of
           Denied \<Rightarrow> (Some PermissionError, s1)
         | Granted tracks \<Rightarrow>
             (None, s1\<lparr>stream := Some tracks, sessionPromise := Some (live_session b)\<rparr>))"

text \<open>
  \<open>startAudioInput\<close>, run by \<open>onopen\<close>; \<open>src\<close> and \<open>proc\<close> are the nodes that
  \<open>createMediaStreamSource\<close> and \<open>createScriptProcessor\<close> return.
\<close>

definition startAudioInput :: "handle \<Rightarrow> handle \<Rightarrow> GeminiLiveService \<Rightarrow> GeminiLiveService" where
  "startAudioInput src proc s =
     (if inputAudioContext s = None \<or> stream s = None \<or> sessionPromise s = None then s
      else s\<lparr>inputSource := Some src, processor := Some proc\<rparr>)"

subsection \<open>The volume of a capture callback\<close>

definition fftSize :: nat where
  "fftSize = 256"

definition frequencyBinCount :: nat where
  "frequencyBinCount = fftSize div 2"

text \<open>
  \<open>xs.reduce(f)\<close> with no initial value: a \<open>TypeError\<close> on an empty array, otherwise
  the fold from the first element on.
\<close>

definition reduce :: "('a \<Rightarrow> 'a \<Rightarrow> 'a) \<Rightarrow> 'a list \<Rightarrow> js_error + 'a" where
  "reduce f xs = (case xs of [] \<Rightarrow> Inl TypeError | x # rest \<Rightarrow> Inr (foldl f x rest))"

text \<open>
  The volume part of \<open>processor.onaudioprocess\<close>. \<open>dataArray\<close> is the \<open>Uint8Array\<close>
  after \<open>getByteFrequencyData\<close> has filled it; its elements are read as numbers. The
  result is the value passed to \<open>onVolumeChange\<close>, if a callback is installed. The sum of
  bytes is an integer far below \<open>2 ^ 53\<close>, so the additions are exact in a JavaScript
  number; the model takes the quotient as a real number.
\<close>

definition onaudioprocess :: "GeminiLiveService \<Rightarrow> 8 word list \<Rightarrow> js_error + real option" where
  "onaudioprocess s dataArray =
     (case reduce (+) (map (\<lambda>b. real (unat b)) dataArray) of
        Inl e \<Rightarrow> Inl e
      | Inr summed \<Rightarrow>
          (let average = summed / real (length dataArray)
           in Inr (if onVolumeChange s then Some average else None)))"

subsection \<open>Scheduling playback\<close>

text \<open>
  Times and durations are JavaScript numbers. The model takes their values as real numbers:
  \<open>Math.max\<close> and the comparisons are exact on them. The sum in
  \<open>nextStartTime += audioBuffer.duration\<close> is rounded to a double, so the addition is a
  parameter \<open>fadd\<close> of the model, and the properties below use one fact about it only:
  adding a number that is not negative does not make a number smaller. The rounded sum of
  two doubles has this property: rounding is monotone, and the first summand is a double
  itself.
\<close>

text \<open>
  \<open>playAudioResponse\<close> is an \<open>async\<close> function, and \<open>onmessage\<close> calls it without
  awaiting it. The call runs up to \<open>await decodeAudioData(...)\<close> when the message is
  handled (\<open>playAudioResponse_begin\<close>) and goes on when the decode has settled
  (\<open>playAudioResponse_resume\<close>); other messages can be handled in between.

  \<open>playAudioResponse_begin\<close>: \<open>currentTime\<close> is the value the call reads from the
  output context. The first component says whether the call goes on to the decode.
\<close>

definition playAudioResponse_begin ::
  "real \<Rightarrow> GeminiLiveService \<Rightarrow> bool \<times> GeminiLiveService" where
  "playAudioResponse_begin currentTime s =
     (case outputAudioContext s of
        None \<Rightarrow> (False, s)
      | Some ctx \<Rightarrow> (True, s\<lparr>nextStartTime := max (nextStartTime s) currentTime\<rparr>))"

text \<open>
  \<open>playAudioResponse_resume\<close>: \<open>decoded\<close> is the outcome of
  \<open>decodeAudioData(decode(base64Audio), ...)\<close> (module \<open>utils/audioUtils\<close>): the
  duration of the decoded buffer, or \<open>None\<close> when decoding fails and the call rejects.
  \<open>h\<close> is the node that \<open>createBufferSource\<close> returns; with the output context set to
  \<open>null\<close> in the meantime that call is a \<open>TypeError\<close>. The first component of the
  result is the \<open>when\<close> passed to \<open>source.start\<close>, read from \<open>nextStartTime\<close> as it
  is now.
\<close>

definition playAudioResponse_resume ::
  "(real \<Rightarrow> real \<Rightarrow> real) \<Rightarrow> handle \<Rightarrow> real option \<Rightarrow> GeminiLiveService \<Rightarrow>
     (js_error + real) \<times> GeminiLiveService" where
  "playAudioResponse_resume fadd h decoded s =
     (case decoded of
        None \<Rightarrow> (Inl FormatError, s)
      | Some d \<Rightarrow>
          (case outputAudioContext s of
             None \<Rightarrow> (Inl TypeError, s)
           | Some ctx \<Rightarrow>
               (Inr (nextStartTime s),
                s\<lparr>nextStartTime := fadd (nextStartTime s) d,
                  sources := sources s @
                    [\<lparr>node = h, start_when = nextStartTime s, buffer_duration = d\<rparr>]\<rparr>)))"

text \<open>The \<open>ended\<close> listener of a source: \<open>this.sources.delete(source)\<close>.\<close>

definition ended :: "handle \<Rightarrow> GeminiLiveService \<Rightarrow> GeminiLiveService" where
  "ended h s = s\<lparr>sources := filter (\<lambda>x. node x \<noteq> h) (sources s)\<rparr>"

text \<open>
  What happens to the player, in the order in which it happens: \<open>Arrives h t\<close> is a
  message with the audio chunk \<open>h\<close>, handled when the output context's current time is
  \<open>t\<close>; \<open>Decoded h t r\<close> is the decode of chunk \<open>h\<close> settling with outcome \<open>r\<close> when the
  current time is \<open>t\<close>. A chunk is named by the handle of the source node made for it.
\<close>

datatype playback_event =
    Arrives handle real
  | Decoded handle real "real option"

text \<open>
  The service together with the calls of \<open>playAudioResponse\<close> that are suspended at the
  \<open>await\<close>: for each such chunk, the current time its call has read.
\<close>

record player =
  live :: GeminiLiveService
  awaiting :: "handle \<Rightarrow> real option"

text \<open>
  What a call of \<open>playAudioResponse\<close> did when it started a source: the chunk, the
  current time the call read before the \<open>await\<close> (\<open>clock\<close>), the current time when
  \<open>source.start\<close> is called (\<open>start_clock\<close>, which the code does not read), the
  \<open>when\<close> passed to \<open>source.start\<close>, the duration of the buffer, and
  \<open>nextStartTime\<close> after the call.
\<close>

record scheduled =
  chunk_id :: handle
  clock :: real
  start_clock :: real
  started_at :: real
  lasts :: real
  cursor :: real

fun play_step ::
  "(real \<Rightarrow> real \<Rightarrow> real) \<Rightarrow> playback_event \<Rightarrow> player \<Rightarrow> scheduled option \<times> player" where
  "play_step fadd (Arrives h t) p =
     (case playAudioResponse_begin t (live p) of
        (False, s') \<Rightarrow> (None, p\<lparr>live := s'\<rparr>)
      | (True, s') \<Rightarrow> (None, p\<lparr>live := s', awaiting := (awaiting p)(h \<mapsto> t)\<rparr>))"
| "play_step fadd (Decoded h now None) p =
     (case awaiting p h of
        None \<Rightarrow> (None, p)
      | Some t \<Rightarrow>
          (None, p\<lparr>live := snd (playAudioResponse_resume fadd h None (live p)),
                   awaiting := (awaiting p)(h := None)\<rparr>))"
| "play_step fadd (Decoded h now (Some d)) p =
     (case awaiting p h of
        None \<Rightarrow> (None, p)
      | Some t \<Rightarrow>
          (case playAudioResponse_resume fadd h (Some d) (live p) of
             (Inl e, s') \<Rightarrow> (None, p\<lparr>live := s', awaiting := (awaiting p)(h := None)\<rparr>)
           | (Inr w, s') \<Rightarrow>
               (Some \<lparr>chunk_id = h, clock = t, start_clock = now, started_at = w,
                      lasts = d, cursor = nextStartTime s'\<rparr>,
                p\<lparr>live := s', awaiting := (awaiting p)(h := None)\<rparr>)))"







subsection \<open>disconnect\<close>

text \<open>
  The calls that \<open>disconnect\<close> makes on the objects it holds. Two of them report a failure
  through a promise and so cannot interrupt \<open>disconnect\<close>: \<open>ThenClose p\<close> is
  \<open>sessionPromise.then(s => s.close())\<close>, which only registers the close, and
  \<open>ContextClose c\<close> is \<open>AudioContext.close()\<close>, which returns a promise. The other three
  are synchronous method calls: \<open>stop()\<close> on a playback source, \<open>stop()\<close> on a track of
  the stream and \<open>disconnect()\<close> on an audio node.
\<close>

datatype call =
    ThenClose handle
  | SourceStop handle
  | TrackStop handle
  | NodeDisconnect handle
  | ContextClose handle

text \<open>
  Synchronous calls made in order. \<open>throws\<close> says which calls raise an exception on this
  platform; the first one that does ends the sequence. The result is the calls completed
  and the call that threw, if any.
\<close>

fun invoke :: "(call \<Rightarrow> bool) \<Rightarrow> call list \<Rightarrow> call list \<times> call option" where
  "invoke throws [] = ([], None)"
| "invoke throws (c # cs) =
     (if throws c then ([], Some c)
      else (case invoke throws cs of (completed, e) \<Rightarrow> (c # completed, e)))"

text \<open>The outcome of a run of \<open>disconnect\<close>: the calls made, the exception that ended it if
  one did, and the fields of the service afterwards.\<close>

record teardown =
  trace :: "call list"
  thrown :: "call option"
  service :: GeminiLiveService

text \<open>The calls of each teardown step, for the fields as they are.\<close>

definition close_session :: "GeminiLiveService \<Rightarrow> call list" where
  "close_session s = (case sessionPromise s of None \<Rightarrow> [] | Some p \<Rightarrow> [ThenClose p])"

definition stop_sources :: "GeminiLiveService \<Rightarrow> call list" where
  "stop_sources s = map (\<lambda>x. SourceStop (node x)) (sources s)"

definition release_capture :: "GeminiLiveService \<Rightarrow> call list" where
  "release_capture s =
     (case stream s of None \<Rightarrow> [] | Some tracks \<Rightarrow> map TrackStop tracks) @
     (case inputSource s of None \<Rightarrow> [] | Some n \<Rightarrow> [NodeDisconnect n]) @
     (case processor s of None \<Rightarrow> [] | Some n \<Rightarrow> [NodeDisconnect n])"

definition close_contexts :: "GeminiLiveService \<Rightarrow> call list" where
  "close_contexts s =
     (case inputAudioContext s of None \<Rightarrow> [] | Some c \<Rightarrow> [ContextClose c]) @
     (case outputAudioContext s of None \<Rightarrow> [] | Some c \<Rightarrow> [ContextClose c])"

text \<open>
  \<open>disconnect\<close> has no exception handler: the statements run in order, and an exception
  from a synchronous call leaves the rest undone. \<open>sources.clear()\<close> follows the
  \<open>forEach\<close> over the sources; the three fields are set to \<open>null\<close> at the end.
\<close>

definition disconnect :: "(call \<Rightarrow> bool) \<Rightarrow> GeminiLiveService \<Rightarrow> teardown" where
  "disconnect throws s =
     (case invoke throws (stop_sources s) of
        (stopped, Some e) \<Rightarrow>
          \<lparr>trace = close_session s @ stopped, thrown = Some e, service = s\<rparr>
      | (stopped, None) \<Rightarrow>
          (let s1 = s\<lparr>sources := []\<rparr>
           in case invoke throws (release_capture s1) of
                (released, Some e) \<Rightarrow>
                  \<lparr>trace = close_session s @ stopped @ released, thrown = Some e,
                   service = s1\<rparr>
              | (released, None) \<Rightarrow>
                  \<lparr>trace = close_session s @ stopped @ released @ close_contexts s1,
                   thrown = None,
                   service = s1\<lparr>inputAudioContext := None, outputAudioContext := None,
                                sessionPromise := None\<rparr>\<rparr>))"

section \<open>LiveInterface\<close>

record LiveInterface =
  isActive :: bool
  volume :: real
  error :: string
  liveServiceRef :: "GeminiLiveService option"

definition LiveInterface_init :: LiveInterface where
  "LiveInterface_init = \<lparr>isActive = False, volume = 0, error = [], liveServiceRef = None\<rparr>"

text \<open>
  \<open>startSession\<close>: a new service with the volume callback installed, then
  \<open>await connect\<close>. The \<open>catch\<close> branch runs exactly when \<open>connect\<close> rejects.
\<close>

definition startSession :: "browser \<Rightarrow> AppConfig \<Rightarrow> LiveInterface \<Rightarrow> LiveInterface" where
  "startSession b config ui =
     (let ui1 = ui\<lparr>error := []\<rparr>;
          svc = GeminiLiveService_new\<lparr>onVolumeChange := True\<rparr>
      in case connect b config svc of
           (None, svc') \<Rightarrow> ui1\<lparr>liveServiceRef := Some svc', isActive := True\<rparr>
         | (Some e, svc') \<Rightarrow>
             ui1\<lparr>liveServiceRef := Some svc',
                 error := ''Could not access microphone or connect to API.'',
                 isActive := False\<rparr>)"

text \<open>
  The session callbacks that end the session: \<open>onclose\<close> and \<open>onerror\<close> both call the
  \<open>onDisconnect\<close> that \<open>startSession\<close> passed to \<open>connect\<close>, which is
  \<open>setIsActive(false)\<close>. A failed handshake reaches the component this way only.
\<close>

datatype session_event = OnClose | OnError

definition onDisconnect :: "LiveInterface \<Rightarrow> LiveInterface" where
  "onDisconnect ui = ui\<lparr>isActive := False\<rparr>"

fun session_callback :: "session_event \<Rightarrow> LiveInterface \<Rightarrow> LiveInterface" where
  "session_callback OnClose ui = onDisconnect ui"
| "session_callback OnError ui = onDisconnect ui"

section \<open>GeminiChatService and ChatInterface.handleSend\<close>

text \<open>\<open>chat\<close> says whether \<open>startChat\<close> has created the chat.\<close>

record GeminiChatService =
  chat :: bool

text \<open>The outcome of the remote call: it rejects, or it answers with \<open>response.text\<close>,
  which may be \<open>undefined\<close>.\<close>

datatype reply = Rejects | Replies "string option"

definition sendMessage :: "GeminiChatService \<Rightarrow> string \<Rightarrow> reply \<Rightarrow> js_error + string option" where
  "sendMessage svc text r =
     (if \<not> chat svc then Inl ChatNotInitialized
      else (case r of Rejects \<Rightarrow> Inl RequestFailed | Replies t \<Rightarrow> Inr t))"

record ChatInterface =
  messages :: "ChatMessage list"
  inputValue :: string
  isLoading :: bool
  chatServiceRef :: "GeminiChatService option"

text \<open>
  \<open>handleSend\<close>. \<open>now\<close> and \<open>later\<close> are the two readings of \<open>Date.now()\<close>, \<open>r\<close> the
  outcome of the remote call. The result is the component state once the handler has
  finished and the texts passed to \<open>sendMessage\<close>. \<open>!inputValue.trim()\<close> holds exactly
  when the trimmed input is the empty string; \<open>if (responseText)\<close> fails for \<open>undefined\<close>
  and for the empty string.
\<close>

definition handleSend :: "nat \<Rightarrow> nat \<Rightarrow> reply \<Rightarrow> ChatInterface \<Rightarrow> ChatInterface \<times> string list" where
  "handleSend now later r c =
     (if trim (inputValue c) = [] \<or> chatServiceRef c = None \<or> isLoading c then (c, [])
      else
        (let userMsg = \<lparr>msg_role = User, msg_text = inputValue c, timestamp = now\<rparr>;
             c1 = c\<lparr>messages := messages c @ [userMsg], inputValue := [], isLoading := True\<rparr>;
             sent = (case chatServiceRef c of
                       None \<Rightarrow> Inl TypeError
                     | Some svc \<Rightarrow> sendMessage svc (msg_text userMsg) r)
         in case sent of
              Inl e \<Rightarrow> (c1\<lparr>isLoading := False\<rparr>, [msg_text userMsg])
            | Inr None \<Rightarrow> (c1\<lparr>isLoading := False\<rparr>, [msg_text userMsg])
            | Inr (Some t) \<Rightarrow>
                if t = [] then (c1\<lparr>isLoading := False\<rparr>, [msg_text userMsg])
                else (c1\<lparr>messages := messages c1 @
                           [\<lparr>msg_role = Model, msg_text = t, timestamp = later\<rparr>],
                         isLoading := False\<rparr>,
                      [msg_text userMsg])))"

section \<open>A session in progress\<close>

text \<open>
  A run of the service used in the examples below: \<open>connect\<close> with the microphone
  granted, \<open>onopen\<close> starting the audio input (\<open>listening\<close>), then one inbound chunk of
  half a second that arrives and is decoded at time 0 (\<open>playing\<close>; the sum \<open>0 + 1 / 2\<close> is
  exact in doubles).
\<close>

definition example_browser :: browser where
  "example_browser =
     \<lparr>new_input_context = 0, new_output_context = 1, user_media = Granted [2],
      live_session = 3\<rparr>"

definition example_config :: AppConfig where
  "example_config =
     \<lparr>level = A1, words = [''maison'', ''chat''], topic = ''Daily Life'', mode = SPEECH\<rparr>"

definition listening :: GeminiLiveService where
  "listening =
     startAudioInput 4 5 (snd (connect example_browser example_config GeminiLiveService_new))"

definition playing :: GeminiLiveService where
  "playing =
     snd (playAudioResponse_resume (+) 6 (Some (1 / 2))
            (snd (playAudioResponse_begin 0 listening)))"

section \<open>Properties of the setup form\<close>

lemma dropWhile_hd: "dropWhile P xs \<noteq> [] \<Longrightarrow> \<not> P (hd (dropWhile P xs))"
  by (simp add: hd_dropWhile)

lemma dropWhile_keep: "xs \<noteq> [] \<Longrightarrow> \<not> P (hd xs) \<Longrightarrow> dropWhile P xs = xs"
  by (cases xs) auto

lemma dropWhile_all: "(\<forall>c \<in> set (dropWhile P xs). P c) \<longleftrightarrow> (\<forall>c \<in> set xs. P c)"
proof
  assume a: "\<forall>c \<in> set (dropWhile P xs). P c"
  have "dropWhile P xs = []"
  proof (rule ccontr)
    assume ne: "dropWhile P xs \<noteq> []"
    then have "\<not> P (hd (dropWhile P xs))" by (rule dropWhile_hd)
    moreover have "hd (dropWhile P xs) \<in> set (dropWhile P xs)" using ne by (rule hd_in_set)
    ultimately show False using a by blast
  qed
  then show "\<forall>c \<in> set xs. P c" by simp
next
  assume "\<forall>c \<in> set xs. P c"
  then show "\<forall>c \<in> set (dropWhile P xs). P c" by (blast dest: set_dropWhileD)
qed

lemma rev_eq_appendD: "rev d = a @ b \<Longrightarrow> d = rev b @ rev a"
proof -
  assume "rev d = a @ b"
  then have "rev (rev d) = rev (a @ b)" by (rule arg_cong)
  then show ?thesis by simp
qed

lemma trim_Nil: "trim [] = []"
  by (simp add: trim_def)

lemma trim_first: "trim s \<noteq> [] \<Longrightarrow> \<not> isWhiteSpace (hd (trim s))"
proof -
  assume ne: "trim s \<noteq> []"
  let ?d = "dropWhile isWhiteSpace s"
  let ?e = "dropWhile isWhiteSpace (rev ?d)"
  have e_ne: "?e \<noteq> []" using ne by (simp add: trim_def)
  have d_ne: "?d \<noteq> []"
  proof
    assume d: "?d = []"
    have "?e = dropWhile isWhiteSpace (rev [])" by (simp only: d)
    then show False using e_ne by simp
  qed
  have "rev ?d = takeWhile isWhiteSpace (rev ?d) @ ?e"
    by (rule takeWhile_dropWhile_id [symmetric])
  then have "?d = rev ?e @ rev (takeWhile isWhiteSpace (rev ?d))" by (rule rev_eq_appendD)
  then have "hd ?d = hd (rev ?e @ rev (takeWhile isWhiteSpace (rev ?d)))" by (rule arg_cong)
  then have "hd ?d = hd (rev ?e)" using e_ne by simp
  moreover have "\<not> isWhiteSpace (hd ?d)" using d_ne by (rule dropWhile_hd)
  ultimately show ?thesis by (simp add: trim_def)
qed

lemma trim_last: "trim s \<noteq> [] \<Longrightarrow> \<not> isWhiteSpace (last (trim s))"
proof -
  assume ne: "trim s \<noteq> []"
  let ?e = "dropWhile isWhiteSpace (rev (dropWhile isWhiteSpace s))"
  have e_ne: "?e \<noteq> []" using ne by (simp add: trim_def)
  then have "\<not> isWhiteSpace (hd ?e)" by (rule dropWhile_hd)
  then show ?thesis using e_ne by (simp add: trim_def last_rev)
qed

lemma trim_fixed:
  assumes "s \<noteq> []" "\<not> isWhiteSpace (hd s)" "\<not> isWhiteSpace (last s)"
  shows "trim s = s"
proof -
  have d: "dropWhile isWhiteSpace s = s" using assms(1,2) by (rule dropWhile_keep)
  have "rev s \<noteq> []" using assms(1) by simp
  moreover have "\<not> isWhiteSpace (hd (rev s))" using assms(1,3) by (simp add: hd_rev)
  ultimately have "dropWhile isWhiteSpace (rev s) = rev s" by (rule dropWhile_keep)
  then show ?thesis using d by (simp add: trim_def)
qed

lemma trim_idem: "trim (trim s) = trim s"
proof (cases "trim s = []")
  case True
  then have "trim (trim s) = trim []" by (rule arg_cong)
  then show ?thesis using True by (simp add: trim_Nil)
next
  case False
  then show ?thesis by (intro trim_fixed trim_first trim_last)
qed

lemma trim_blank: "trim s = [] \<longleftrightarrow> (\<forall>c \<in> set s. isWhiteSpace c)"
proof -
  have "trim s = [] \<longleftrightarrow> dropWhile isWhiteSpace (rev (dropWhile isWhiteSpace s)) = []"
    by (simp add: trim_def)
  also have "\<dots> \<longleftrightarrow> (\<forall>c \<in> set (rev (dropWhile isWhiteSpace s)). isWhiteSpace c)"
    by (rule dropWhile_eq_Nil_conv)
  also have "\<dots> \<longleftrightarrow> (\<forall>c \<in> set (dropWhile isWhiteSpace s). isWhiteSpace c)"
    by simp
  also have "\<dots> \<longleftrightarrow> (\<forall>c \<in> set s. isWhiteSpace c)"
    by (rule dropWhile_all)
  finally show ?thesis .
qed

lemma parse_words_entries:
  "w \<in> set (parse_words inp) \<Longrightarrow> w \<noteq> [] \<and> trim w = w"
  by (auto simp: parse_words_def trim_idem)

text \<open>
  C10. Every config that \<open>handleSubmit\<close> passes to \<open>onStart\<close> has a non-empty word list
  whose entries are non-empty and trimmed, and a topic that is not the empty string.
\<close>

theorem handleSubmit_config_wellformed:
  "handleSubmit f = (f', Some cfg) \<Longrightarrow>
     words cfg \<noteq> [] \<and> (\<forall>w \<in> set (words cfg). w \<noteq> [] \<and> trim w = w) \<and> topic cfg \<noteq> []"
proof -
  assume h: "handleSubmit f = (f', Some cfg)"
  let ?ws = "parse_words (wordsInput f)"
  from h have len: "\<not> length ?ws < 1"
    by (auto simp: handleSubmit_def Let_def split: if_splits)
  with h have cfg: "cfg = \<lparr>level = form_level f, words = ?ws,
      topic = (if form_topic f = [] then ''Daily Life'' else form_topic f),
      mode = form_mode f\<rparr>"
    by (auto simp: handleSubmit_def Let_def split: if_splits)
  have w: "words cfg = ?ws" by (simp add: cfg)
  have "words cfg \<noteq> []" using len w by auto
  moreover have "\<forall>w \<in> set (words cfg). w \<noteq> [] \<and> trim w = w"
    using w parse_words_entries by simp
  moreover have "topic cfg \<noteq> []" by (simp add: cfg)
  ultimately show ?thesis by blast
qed

theorem handleSubmit_config_wellformed_witness:
  "handleSubmit (SetupForm_init\<lparr>wordsInput := ''maison, , chat ''\<rparr>) =
     (SetupForm_init\<lparr>wordsInput := ''maison, , chat ''\<rparr>,
      Some \<lparr>level = A1, words = [''maison'', ''chat''], topic = ''Daily Life'', mode = TEXT\<rparr>) \<and>
   words \<lparr>level = A1, words = [''maison'', ''chat''], topic = ''Daily Life'', mode = TEXT\<rparr> \<noteq> [] \<and>
   ''maison'' \<noteq> [] \<and> trim ''maison'' = ''maison'' \<and>
   ''chat'' \<noteq> [] \<and> trim ''chat'' = ''chat'' \<and>
   topic \<lparr>level = A1, words = [''maison'', ''chat''], topic = ''Daily Life'', mode = TEXT\<rparr> \<noteq> []"
proof -
  have h: "handleSubmit (SetupForm_init\<lparr>wordsInput := ''maison, , chat ''\<rparr>) =
     (SetupForm_init\<lparr>wordsInput := ''maison, , chat ''\<rparr>,
      Some \<lparr>level = A1, words = [''maison'', ''chat''], topic = ''Daily Life'', mode = TEXT\<rparr>)"
    by code_simp
  show ?thesis using h handleSubmit_config_wellformed [OF h] by simp
qed

section \<open>Properties of the system instruction\<close>

text \<open>
  C1, as stated, fails: for the config \<open>{level: A1, words: ["maison", "chat"], topic: "",
  mode: SPEECH}\<close> the template does not produce "Daily Life". Its own fallback for an
  empty topic is "General Conversation".
\<close>

theorem template_Daily_Life_counterexample:
  "\<not> (includes_str (SYSTEM_INSTRUCTION_TEMPLATE
          \<lparr>level = A1, words = [''maison'', ''chat''], topic = [], mode = SPEECH\<rparr>) ''A1'' \<and>
      includes_str (SYSTEM_INSTRUCTION_TEMPLATE
          \<lparr>level = A1, words = [''maison'', ''chat''], topic = [], mode = SPEECH\<rparr>) ''maison'' \<and>
      includes_str (SYSTEM_INSTRUCTION_TEMPLATE
          \<lparr>level = A1, words = [''maison'', ''chat''], topic = [], mode = SPEECH\<rparr>) ''chat'' \<and>
      includes_str (SYSTEM_INSTRUCTION_TEMPLATE
          \<lparr>level = A1, words = [''maison'', ''chat''], topic = [], mode = SPEECH\<rparr>) ''Daily Life'')"
proof -
  have "\<not> includes_str (SYSTEM_INSTRUCTION_TEMPLATE
          \<lparr>level = A1, words = [''maison'', ''chat''], topic = [], mode = SPEECH\<rparr>) ''Daily Life''"
    by code_simp
  then show ?thesis by blast
qed

text \<open>
  C1, amended. For the config \<open>{level: A1, words: ["maison", "chat"], topic: "", mode:
  SPEECH}\<close> the system instruction contains "A1", "maison", "chat" and the template's
  fallback topic "General Conversation". "Daily Life" is the fallback of
  \<open>SetupForm.handleSubmit\<close>: submitting the form with level A1, words "maison, chat", a blank
  topic and mode SPEECH passes a config whose topic is "Daily Life", and the instruction
  built from that config contains "A1", "maison", "chat" and "Daily Life".
\<close>

theorem template_scenario:
  "includes_str (SYSTEM_INSTRUCTION_TEMPLATE
      \<lparr>level = A1, words = [''maison'', ''chat''], topic = [], mode = SPEECH\<rparr>) ''A1'' \<and>
   includes_str (SYSTEM_INSTRUCTION_TEMPLATE
      \<lparr>level = A1, words = [''maison'', ''chat''], topic = [], mode = SPEECH\<rparr>) ''maison'' \<and>
   includes_str (SYSTEM_INSTRUCTION_TEMPLATE
      \<lparr>level = A1, words = [''maison'', ''chat''], topic = [], mode = SPEECH\<rparr>) ''chat'' \<and>
   includes_str (SYSTEM_INSTRUCTION_TEMPLATE
      \<lparr>level = A1, words = [''maison'', ''chat''], topic = [], mode = SPEECH\<rparr>)
      ''General Conversation'' \<and>
   snd (handleSubmit \<lparr>form_level = A1, wordsInput = ''maison, chat'', form_topic = [],
                      form_mode = SPEECH, form_error = []\<rparr>) =
     Some \<lparr>level = A1, words = [''maison'', ''chat''], topic = ''Daily Life'', mode = SPEECH\<rparr> \<and>
   includes_str (SYSTEM_INSTRUCTION_TEMPLATE
      \<lparr>level = A1, words = [''maison'', ''chat''], topic = ''Daily Life'', mode = SPEECH\<rparr>) ''A1'' \<and>
   includes_str (SYSTEM_INSTRUCTION_TEMPLATE
      \<lparr>level = A1, words = [''maison'', ''chat''], topic = ''Daily Life'', mode = SPEECH\<rparr>) ''maison'' \<and>
   includes_str (SYSTEM_INSTRUCTION_TEMPLATE
      \<lparr>level = A1, words = [''maison'', ''chat''], topic = ''Daily Life'', mode = SPEECH\<rparr>) ''chat'' \<and>
   includes_str (SYSTEM_INSTRUCTION_TEMPLATE
      \<lparr>level = A1, words = [''maison'', ''chat''], topic = ''Daily Life'', mode = SPEECH\<rparr>)
      ''Daily Life''"
  by code_simp

section \<open>Properties of the volume analyser\<close>

lemma foldl_add_sum_list: "foldl (+) (a::real) xs = a + sum_list xs"
  by (induction xs arbitrary: a) auto

lemma reduce_add: "xs \<noteq> [] \<Longrightarrow> reduce (+) xs = Inr (sum_list (xs::real list))"
  by (cases xs) (auto simp: reduce_def foldl_add_sum_list)

lemma byte_sum_bounds:
  "0 \<le> (\<Sum>b\<leftarrow>dataArray. real (unat (b::8 word))) \<and>
   (\<Sum>b\<leftarrow>dataArray. real (unat b)) \<le> 255 * real (length dataArray)"
proof (induction dataArray)
  case Nil
  then show ?case by simp
next
  case (Cons b bs)
  have "unat b < 2 ^ 8" using unsigned_less [of b] by simp
  then have "unat b \<le> 255" by simp
  then have "real (unat b) \<le> real 255" by (simp only: of_nat_le_iff)
  then have "real (unat b) \<le> 255" by simp
  moreover have "0 \<le> real (unat b)" by (rule of_nat_0_le_iff)
  ultimately show ?case using Cons by (simp add: algebra_simps)
qed

text \<open>
  C6. In a capture callback the array holds \<open>frequencyBinCount\<close> bytes. The value passed
  to \<open>onVolumeChange\<close> is the arithmetic mean of the bytes, and it lies in \<open>[0, 255]\<close>.
\<close>

theorem volume_is_mean:
  assumes "length dataArray = frequencyBinCount" "onVolumeChange s"
  shows "onaudioprocess s dataArray =
           Inr (Some ((\<Sum>b\<leftarrow>dataArray. real (unat b)) / real (length dataArray))) \<and>
         0 \<le> (\<Sum>b\<leftarrow>dataArray. real (unat b)) / real (length dataArray) \<and>
         (\<Sum>b\<leftarrow>dataArray. real (unat b)) / real (length dataArray) \<le> 255"
proof -
  have len: "length dataArray = 128"
    using assms(1) by (simp add: frequencyBinCount_def fftSize_def)
  then have ne: "map (\<lambda>b. real (unat b)) dataArray \<noteq> []" by auto
  let ?t = "\<Sum>b\<leftarrow>dataArray. real (unat b)"
  have run: "onaudioprocess s dataArray = Inr (Some (?t / real (length dataArray)))"
    using assms(2) reduce_add [OF ne] by (simp add: onaudioprocess_def)
  have b: "0 \<le> ?t" "?t \<le> 255 * real (length dataArray)" using byte_sum_bounds by auto
  have "0 \<le> ?t / real (length dataArray)" using b(1) by simp
  moreover have "?t / real (length dataArray) \<le> 255" using b(2) len by simp
  ultimately show ?thesis using run by simp
qed

theorem volume_is_mean_witness:
  "length (replicate 128 (200 :: 8 word)) = frequencyBinCount \<and>
   onVolumeChange (GeminiLiveService_new\<lparr>onVolumeChange := True\<rparr>) \<and>
   onaudioprocess (GeminiLiveService_new\<lparr>onVolumeChange := True\<rparr>) (replicate 128 200) =
     Inr (Some 200)"
proof -
  have l: "length (replicate 128 (200 :: 8 word)) = frequencyBinCount"
    by (simp add: frequencyBinCount_def fftSize_def)
  have c: "onVolumeChange (GeminiLiveService_new\<lparr>onVolumeChange := True\<rparr>)" by simp
  have m: "(\<Sum>b\<leftarrow>replicate 128 (200 :: 8 word). real (unat b)) /
             real (length (replicate 128 (200 :: 8 word))) = 200"
    by (simp add: sum_list_replicate)
  have r: "onaudioprocess (GeminiLiveService_new\<lparr>onVolumeChange := True\<rparr>)
             (replicate 128 (200 :: 8 word)) =
           Inr (Some ((\<Sum>b\<leftarrow>replicate 128 (200 :: 8 word). real (unat b)) /
             real (length (replicate 128 (200 :: 8 word)))))"
    using volume_is_mean [OF l c] by (rule conjunct1)
  have "onaudioprocess (GeminiLiveService_new\<lparr>onVolumeChange := True\<rparr>)
             (replicate 128 (200 :: 8 word)) = Inr (Some 200)"
    using r by (simp only: m)
  then show ?thesis using l c by blast
qed

section \<open>Properties of the playback schedule\<close>

lemma listening_eq:
  "listening =
     \<lparr>sessionPromise = Some 3, inputAudioContext = Some 0, outputAudioContext = Some 1,
      nextStartTime = 0, sources = [], stream = Some [2], processor = Some 5,
      inputSource = Some 4, gainNode = None, onVolumeChange = False\<rparr>"
  by (simp add: listening_def startAudioInput_def connect_def example_browser_def
      GeminiLiveService_new_def)

lemma playing_eq:
  "playing =
     \<lparr>sessionPromise = Some 3, inputAudioContext = Some 0, outputAudioContext = Some 1,
      nextStartTime = 1 / 2,
      sources = [\<lparr>node = 6, start_when = 0, buffer_duration = 1 / 2\<rparr>],
      stream = Some [2], processor = Some 5, inputSource = Some 4, gainNode = None,
      onVolumeChange = False\<rparr>"
  by (simp add: playing_def listening_eq playAudioResponse_begin_def
      playAudioResponse_resume_def)











lemma play_step_context:
  "outputAudioContext (live (snd (play_step fadd ev p))) = outputAudioContext (live p)"
proof (cases ev)
  case (Arrives h t)
  then show ?thesis
    by (simp add: playAudioResponse_begin_def split: option.splits)
next
  case (Decoded h now r)
  then show ?thesis
    by (cases r) (simp_all add: playAudioResponse_resume_def split: option.splits)
qed









section \<open>Properties of disconnect\<close>

lemma invoke_all: "\<forall>c \<in> set cs. \<not> throws c \<Longrightarrow> invoke throws cs = (cs, None)"
  by (induction cs) auto

lemma invoke_completed:
  "invoke throws cs = (completed, None) \<Longrightarrow> completed = cs \<and> (\<forall>c \<in> set cs. \<not> throws c)"
proof (induction cs arbitrary: completed)
  case Nil
  then show ?case by simp
next
  case (Cons c cs)
  show ?case
  proof (cases "throws c")
    case True
    with Cons.prems show ?thesis by simp
  next
    case False
    obtain rest e where r: "invoke throws cs = (rest, e)" by (cases "invoke throws cs")
    with False Cons.prems have "e = None" and c: "completed = c # rest" by auto
    with r have "rest = cs \<and> (\<forall>c \<in> set cs. \<not> throws c)" using Cons.IH by blast
    with c False show ?thesis by simp
  qed
qed

lemma release_capture_sources: "release_capture (s\<lparr>sources := xs\<rparr>) = release_capture s"
  by (simp add: release_capture_def)

lemma close_contexts_sources: "close_contexts (s\<lparr>sources := xs\<rparr>) = close_contexts s"
  by (simp add: close_contexts_def)

lemma disconnect_completes:
  assumes "\<forall>c \<in> set (stop_sources s). \<not> throws c"
    and "\<forall>c \<in> set (release_capture s). \<not> throws c"
  shows "disconnect throws s =
           \<lparr>trace = close_session s @ stop_sources s @ release_capture s @ close_contexts s,
            thrown = None,
            service = s\<lparr>sources := [], inputAudioContext := None,
                        outputAudioContext := None, sessionPromise := None\<rparr>\<rparr>"
  using invoke_all [OF assms(1)] invoke_all [OF assms(2)]
  by (simp add: disconnect_def release_capture_sources close_contexts_sources)

lemma disconnect_returned:
  assumes "thrown (disconnect throws s) = None"
  shows "(\<forall>c \<in> set (stop_sources s). \<not> throws c) \<and>
         (\<forall>c \<in> set (release_capture s). \<not> throws c)"
proof -
  obtain stopped e where a: "invoke throws (stop_sources s) = (stopped, e)"
    by (cases "invoke throws (stop_sources s)")
  obtain released e' where b: "invoke throws (release_capture s) = (released, e')"
    by (cases "invoke throws (release_capture s)")
  from assms a have e: "e = None"
    by (cases e) (simp_all add: disconnect_def)
  from assms a b e have e': "e' = None"
    by (cases e') (simp_all add: disconnect_def release_capture_sources)
  from a e b e' show ?thesis using invoke_completed by blast
qed

lemma disconnect_returned_eq:
  assumes "thrown (disconnect throws s) = None"
  shows "disconnect throws s =
           \<lparr>trace = close_session s @ stop_sources s @ release_capture s @ close_contexts s,
            thrown = None,
            service = s\<lparr>sources := [], inputAudioContext := None,
                        outputAudioContext := None, sessionPromise := None\<rparr>\<rparr>"
  using disconnect_returned [OF assms] by (intro disconnect_completes) auto

lemma disconnect_playing:
  "disconnect (\<lambda>c. False) playing =
     \<lparr>trace = [ThenClose 3, SourceStop 6, TrackStop 2, NodeDisconnect 4, NodeDisconnect 5,
               ContextClose 0, ContextClose 1],
      thrown = None,
      service = playing\<lparr>sources := [], inputAudioContext := None,
                        outputAudioContext := None, sessionPromise := None\<rparr>\<rparr>"
  by (simp add: playing_eq disconnect_def stop_sources_def close_session_def
      release_capture_def close_contexts_def)

text \<open>
  C3, as stated, fails: \<open>disconnect\<close> can raise, and then it does not empty
  \<open>sources\<close>. In the session in progress, when \<open>stop()\<close> on the scheduled source
  throws, the exception leaves \<open>disconnect\<close>, the source is still in the set, and a second
  call in a row raises again.
\<close>

theorem disconnect_raises_counterexample:
  "thrown (disconnect (\<lambda>c. c = SourceStop 6) playing) = Some (SourceStop 6) \<and>
   sources (service (disconnect (\<lambda>c. c = SourceStop 6) playing)) =
     [\<lparr>node = 6, start_when = 0, buffer_duration = 1 / 2\<rparr>] \<and>
   sources (service (disconnect (\<lambda>c. c = SourceStop 6) playing)) \<noteq> [] \<and>
   thrown (disconnect (\<lambda>c. c = SourceStop 6)
     (service (disconnect (\<lambda>c. c = SourceStop 6) playing))) = Some (SourceStop 6)"
  by (simp add: playing_eq disconnect_def stop_sources_def close_session_def)

text \<open>
  C3, amended. \<open>disconnect\<close> on a never-connected instance makes no call, raises nothing
  and leaves the instance as it was, on every platform. When none of the synchronous calls
  of \<open>disconnect\<close> throws (\<open>stop()\<close> on each scheduled source, \<open>stop()\<close> on each
  track, \<open>disconnect()\<close> on the input source and the processor), a call raises nothing,
  makes the calls of all four steps, among them the stop of every scheduled source, and
  leaves \<open>sources\<close> empty; and a second call in a row raises nothing and leaves the
  fields as the first call left them: it stops the tracks and disconnects the two nodes
  again and makes no other call.
\<close>

theorem disconnect_idempotent:
  "disconnect throws GeminiLiveService_new =
     \<lparr>trace = [], thrown = None, service = GeminiLiveService_new\<rparr> \<and>
   ((\<forall>c \<in> set (stop_sources s @ release_capture s). \<not> throws c) \<longrightarrow>
      disconnect throws s =
        \<lparr>trace = close_session s @ stop_sources s @ release_capture s @ close_contexts s,
         thrown = None,
         service = s\<lparr>sources := [], inputAudioContext := None, outputAudioContext := None,
                     sessionPromise := None\<rparr>\<rparr> \<and>
      sources (service (disconnect throws s)) = [] \<and>
      disconnect throws (service (disconnect throws s)) =
        \<lparr>trace = release_capture s, thrown = None, service = service (disconnect throws s)\<rparr>)"
proof (intro conjI impI)
  show "disconnect throws GeminiLiveService_new =
     \<lparr>trace = [], thrown = None, service = GeminiLiveService_new\<rparr>"
    by (simp add: disconnect_def GeminiLiveService_new_def stop_sources_def
        release_capture_def close_contexts_def close_session_def)
next
  assume ok: "\<forall>c \<in> set (stop_sources s @ release_capture s). \<not> throws c"
  let ?s' = "s\<lparr>sources := [], inputAudioContext := None, outputAudioContext := None,
                sessionPromise := None\<rparr>"
  show d: "disconnect throws s =
        \<lparr>trace = close_session s @ stop_sources s @ release_capture s @ close_contexts s,
         thrown = None, service = ?s'\<rparr>"
    using ok by (intro disconnect_completes) auto
  have s1: "stop_sources ?s' = []" by (simp add: stop_sources_def)
  have s2: "release_capture ?s' = release_capture s" by (simp add: release_capture_def)
  have s3: "close_session ?s' = []" by (simp add: close_session_def)
  have s4: "close_contexts ?s' = []" by (simp add: close_contexts_def)
  have d': "disconnect throws ?s' =
           \<lparr>trace = close_session ?s' @ stop_sources ?s' @ release_capture ?s' @
              close_contexts ?s',
            thrown = None,
            service = ?s'\<lparr>sources := [], inputAudioContext := None,
                        outputAudioContext := None, sessionPromise := None\<rparr>\<rparr>"
    using ok s1 s2 by (intro disconnect_completes) auto
  show "sources (service (disconnect throws s)) = []" by (simp add: d)
  show "disconnect throws (service (disconnect throws s)) =
        \<lparr>trace = release_capture s, thrown = None, service = service (disconnect throws s)\<rparr>"
    by (simp add: d d' s1 s2 s3 s4)
qed

theorem disconnect_idempotent_witness:
  "\<not> (SourceStop 6 = ThenClose 3) \<and> \<not> (TrackStop 2 = ThenClose 3) \<and>
   \<not> (NodeDisconnect 4 = ThenClose 3) \<and> \<not> (NodeDisconnect 5 = ThenClose 3) \<and>
   disconnect (\<lambda>c. c = ThenClose 3) playing =
     \<lparr>trace = [ThenClose 3, SourceStop 6, TrackStop 2, NodeDisconnect 4, NodeDisconnect 5,
               ContextClose 0, ContextClose 1],
      thrown = None,
      service = playing\<lparr>sources := [], inputAudioContext := None,
                        outputAudioContext := None, sessionPromise := None\<rparr>\<rparr> \<and>
   sources (service (disconnect (\<lambda>c. c = ThenClose 3) playing)) = [] \<and>
   disconnect (\<lambda>c. c = ThenClose 3) (service (disconnect (\<lambda>c. c = ThenClose 3) playing)) =
     \<lparr>trace = [TrackStop 2, NodeDisconnect 4, NodeDisconnect 5], thrown = None,
      service = service (disconnect (\<lambda>c. c = ThenClose 3) playing)\<rparr>"
proof -
  have h: "\<forall>c \<in> set (stop_sources playing @ release_capture playing). \<not> (c = ThenClose 3)"
    by (simp add: playing_eq stop_sources_def release_capture_def)
  have cs: "close_session playing = [ThenClose 3]"
    by (simp add: playing_eq close_session_def)
  have ss: "stop_sources playing = [SourceStop 6]"
    by (simp add: playing_eq stop_sources_def)
  have rc: "release_capture playing = [TrackStop 2, NodeDisconnect 4, NodeDisconnect 5]"
    by (simp add: playing_eq release_capture_def)
  have cc: "close_contexts playing = [ContextClose 0, ContextClose 1]"
    by (simp add: playing_eq close_contexts_def)
  have i: "(\<forall>c \<in> set (stop_sources playing @ release_capture playing). \<not> (c = ThenClose 3)) \<longrightarrow>
      disconnect (\<lambda>c. c = ThenClose 3) playing =
        \<lparr>trace = close_session playing @ stop_sources playing @ release_capture playing @
           close_contexts playing,
         thrown = None,
         service = playing\<lparr>sources := [], inputAudioContext := None,
                     outputAudioContext := None, sessionPromise := None\<rparr>\<rparr> \<and>
      sources (service (disconnect (\<lambda>c. c = ThenClose 3) playing)) = [] \<and>
      disconnect (\<lambda>c. c = ThenClose 3)
          (service (disconnect (\<lambda>c. c = ThenClose 3) playing)) =
        \<lparr>trace = release_capture playing, thrown = None,
         service = service (disconnect (\<lambda>c. c = ThenClose 3) playing)\<rparr>"
    using disconnect_idempotent [of "\<lambda>c. c = ThenClose 3" playing] by (rule conjunct2)
  have j: "disconnect (\<lambda>c. c = ThenClose 3) playing =
        \<lparr>trace = [ThenClose 3] @ [SourceStop 6] @
           [TrackStop 2, NodeDisconnect 4, NodeDisconnect 5] @
           [ContextClose 0, ContextClose 1],
         thrown = None,
         service = playing\<lparr>sources := [], inputAudioContext := None,
                     outputAudioContext := None, sessionPromise := None\<rparr>\<rparr> \<and>
      sources (service (disconnect (\<lambda>c. c = ThenClose 3) playing)) = [] \<and>
      disconnect (\<lambda>c. c = ThenClose 3)
          (service (disconnect (\<lambda>c. c = ThenClose 3) playing)) =
        \<lparr>trace = [TrackStop 2, NodeDisconnect 4, NodeDisconnect 5], thrown = None,
         service = service (disconnect (\<lambda>c. c = ThenClose 3) playing)\<rparr>"
    using mp [OF i h] unfolding cs ss rc cc .
  have k: "[ThenClose 3] @ [SourceStop 6] @
           [TrackStop 2, NodeDisconnect 4, NodeDisconnect 5] @
           [ContextClose 0, ContextClose 1] =
           [ThenClose 3, SourceStop 6, TrackStop 2, NodeDisconnect 4, NodeDisconnect 5,
            ContextClose 0, ContextClose 1]"
    by simp
  have n: "\<not> (SourceStop 6 = ThenClose 3) \<and> \<not> (TrackStop 2 = ThenClose 3) \<and>
   \<not> (NodeDisconnect 4 = ThenClose 3) \<and> \<not> (NodeDisconnect 5 = ThenClose 3)"
    by simp
  show ?thesis using j n unfolding k by blast
qed

text \<open>
  C7, as stated, fails: \<open>disconnect\<close> has no exception handler. In the session in
  progress, when \<open>stop()\<close> on the scheduled source throws, \<open>disconnect\<close> ends there: the
  close of the remote session has been requested, but the track is not stopped, the nodes
  are not disconnected, no context is closed and all fields keep their values.
\<close>

theorem disconnect_not_best_effort_counterexample:
  "thrown (disconnect (\<lambda>c. c = SourceStop 6) playing) = Some (SourceStop 6) \<and>
   trace (disconnect (\<lambda>c. c = SourceStop 6) playing) = [ThenClose 3] \<and>
   TrackStop 2 \<notin> set (trace (disconnect (\<lambda>c. c = SourceStop 6) playing)) \<and>
   ContextClose 0 \<notin> set (trace (disconnect (\<lambda>c. c = SourceStop 6) playing)) \<and>
   ContextClose 1 \<notin> set (trace (disconnect (\<lambda>c. c = SourceStop 6) playing)) \<and>
   service (disconnect (\<lambda>c. c = SourceStop 6) playing) = playing"
  by (simp add: playing_eq disconnect_def stop_sources_def close_session_def)

text \<open>
  C7, amended. When none of the synchronous calls of \<open>disconnect\<close> throws (\<open>stop()\<close>
  on each scheduled source, \<open>stop()\<close> on each track, \<open>disconnect()\<close> on the input
  source and the processor), \<open>disconnect\<close> returns and has made the calls of all four
  steps, in order: the request to close the remote session, the stop of every scheduled
  source, the release of the capture device, and the close of both contexts. Whether the
  close of the session or of a context fails makes no difference: those two report
  failure through a promise.
\<close>

theorem disconnect_all_steps:
  assumes "\<forall>c \<in> set (stop_sources s @ release_capture s). \<not> throws c"
  shows "thrown (disconnect throws s) = None \<and>
         trace (disconnect throws s) =
           close_session s @ stop_sources s @ release_capture s @ close_contexts s"
proof -
  have "disconnect throws s =
           \<lparr>trace = close_session s @ stop_sources s @ release_capture s @ close_contexts s,
            thrown = None,
            service = s\<lparr>sources := [], inputAudioContext := None,
                        outputAudioContext := None, sessionPromise := None\<rparr>\<rparr>"
    using assms by (intro disconnect_completes) auto
  then show ?thesis by simp
qed

theorem disconnect_all_steps_witness:
  "\<not> (SourceStop 6 = ThenClose 3 \<or> SourceStop 6 = ContextClose 0) \<and>
   \<not> (TrackStop 2 = ThenClose 3 \<or> TrackStop 2 = ContextClose 0) \<and>
   \<not> (NodeDisconnect 4 = ThenClose 3 \<or> NodeDisconnect 4 = ContextClose 0) \<and>
   \<not> (NodeDisconnect 5 = ThenClose 3 \<or> NodeDisconnect 5 = ContextClose 0) \<and>
   thrown (disconnect (\<lambda>c. c = ThenClose 3 \<or> c = ContextClose 0) playing) = None \<and>
   trace (disconnect (\<lambda>c. c = ThenClose 3 \<or> c = ContextClose 0) playing) =
     [ThenClose 3, SourceStop 6, TrackStop 2, NodeDisconnect 4, NodeDisconnect 5,
      ContextClose 0, ContextClose 1]"
proof -
  have h: "\<forall>c \<in> set (stop_sources playing @ release_capture playing).
             \<not> (c = ThenClose 3 \<or> c = ContextClose 0)"
    by (simp add: playing_eq stop_sources_def release_capture_def)
  have t: "close_session playing @ stop_sources playing @ release_capture playing @
             close_contexts playing =
           [ThenClose 3, SourceStop 6, TrackStop 2, NodeDisconnect 4, NodeDisconnect 5,
            ContextClose 0, ContextClose 1]"
    by (simp add: playing_eq stop_sources_def release_capture_def close_session_def
        close_contexts_def)
  show ?thesis
    using disconnect_all_steps [of playing "\<lambda>c. c = ThenClose 3 \<or> c = ContextClose 0", OF h] t
    by simp
qed

text \<open>
  C8, as stated, fails: after \<open>disconnect\<close> has returned from the session in progress,
  the capture stream, the input source and the processor still hold their handles.
\<close>

theorem disconnect_keeps_capture_counterexample:
  "thrown (disconnect (\<lambda>c. False) playing) = None \<and>
   \<not> (sessionPromise (service (disconnect (\<lambda>c. False) playing)) = None \<and>
      inputAudioContext (service (disconnect (\<lambda>c. False) playing)) = None \<and>
      outputAudioContext (service (disconnect (\<lambda>c. False) playing)) = None \<and>
      stream (service (disconnect (\<lambda>c. False) playing)) = None \<and>
      inputSource (service (disconnect (\<lambda>c. False) playing)) = None \<and>
      processor (service (disconnect (\<lambda>c. False) playing)) = None)"
  by (simp add: disconnect_playing, simp add: playing_eq)

text \<open>
  C8, amended. After \<open>disconnect\<close> has returned, the session promise and both audio
  contexts are \<open>null\<close> and \<open>sources\<close> is empty; every other field is as before: the
  capture stream (its tracks stopped), the input source and the processor (both
  disconnected) keep their handles, and \<open>nextStartTime\<close> keeps its value.
\<close>

theorem disconnect_clears:
  assumes "thrown (disconnect throws s) = None"
  shows "service (disconnect throws s) =
           s\<lparr>sources := [], inputAudioContext := None, outputAudioContext := None,
             sessionPromise := None\<rparr> \<and>
         sessionPromise (service (disconnect throws s)) = None \<and>
         inputAudioContext (service (disconnect throws s)) = None \<and>
         outputAudioContext (service (disconnect throws s)) = None \<and>
         sources (service (disconnect throws s)) = [] \<and>
         stream (service (disconnect throws s)) = stream s \<and>
         inputSource (service (disconnect throws s)) = inputSource s \<and>
         processor (service (disconnect throws s)) = processor s \<and>
         nextStartTime (service (disconnect throws s)) = nextStartTime s"
  by (simp add: disconnect_returned_eq [OF assms])

theorem disconnect_clears_witness:
  "thrown (disconnect (\<lambda>c. False) playing) = None \<and>
   sessionPromise (service (disconnect (\<lambda>c. False) playing)) = None \<and>
   inputAudioContext (service (disconnect (\<lambda>c. False) playing)) = None \<and>
   outputAudioContext (service (disconnect (\<lambda>c. False) playing)) = None \<and>
   sources (service (disconnect (\<lambda>c. False) playing)) = [] \<and>
   stream (service (disconnect (\<lambda>c. False) playing)) = Some [2] \<and>
   inputSource (service (disconnect (\<lambda>c. False) playing)) = Some 4 \<and>
   processor (service (disconnect (\<lambda>c. False) playing)) = Some 5 \<and>
   nextStartTime (service (disconnect (\<lambda>c. False) playing)) = 1 / 2"
proof -
  have r: "thrown (disconnect (\<lambda>c. False) playing) = None"
    by (simp add: disconnect_playing)
  show ?thesis using r disconnect_clears [OF r] by (simp add: playing_eq)
qed

section \<open>Properties of startSession\<close>

text \<open>
  When the microphone is denied, \<open>connect\<close> rejects and the \<open>catch\<close> branch runs:
  the message is shown, \<open>isActive\<close> is false and the service holds no session promise.
\<close>

lemma startSession_denied:
  "user_media b = Denied \<Longrightarrow>
     \<not> isActive (startSession b config ui) \<and>
     error (startSession b config ui) = ''Could not access microphone or connect to API.'' \<and>
     map_option sessionPromise (liveServiceRef (startSession b config ui)) = Some None"
  by (simp add: startSession_def connect_def GeminiLiveService_new_def)

text \<open>
  When the microphone is granted, \<open>connect\<close> resolves whatever the handshake will do:
  \<open>isActive\<close> is true, no message is shown and the session promise is kept.
\<close>

lemma startSession_granted:
  "user_media b = Granted tracks \<Longrightarrow>
     isActive (startSession b config ui) \<and>
     error (startSession b config ui) = [] \<and>
     map_option sessionPromise (liveServiceRef (startSession b config ui)) =
       Some (Some (live_session b))"
  by (simp add: startSession_def connect_def GeminiLiveService_new_def)

text \<open>
  C4, at the failing input: the microphone is granted and the remote handshake fails.
  \<open>startSession\<close> has already set \<open>isActive\<close> to true with no error message; the
  failure arrives through \<open>onerror\<close>, which sets \<open>isActive\<close> to false and nothing else:
  no message is shown, and the service keeps its session promise, its stream and both
  contexts.
\<close>

theorem startSession_handshake_failure:
  "isActive (startSession example_browser example_config LiveInterface_init) \<and>
   error (startSession example_browser example_config LiveInterface_init) = [] \<and>
   \<not> isActive (session_callback OnError
        (startSession example_browser example_config LiveInterface_init)) \<and>
   error (session_callback OnError
        (startSession example_browser example_config LiveInterface_init)) = [] \<and>
   error (session_callback OnError
        (startSession example_browser example_config LiveInterface_init)) \<noteq>
     ''Could not access microphone or connect to API.'' \<and>
   liveServiceRef (session_callback OnError
        (startSession example_browser example_config LiveInterface_init)) =
     Some \<lparr>sessionPromise = Some 3, inputAudioContext = Some 0, outputAudioContext = Some 1,
           nextStartTime = 0, sources = [], stream = Some [2], processor = None,
           inputSource = None, gainNode = None, onVolumeChange = True\<rparr>"
  by (simp add: startSession_def connect_def example_browser_def LiveInterface_init_def
      onDisconnect_def GeminiLiveService_new_def)

section \<open>Properties of handleSend\<close>

text \<open>
  C9. An input that is empty or consists of white space only is not sent: the state is
  unchanged and \<open>sendMessage\<close> is not called. When the input is sent and
  \<open>sendMessage\<close> throws, the user's message has been appended, no reply is appended,
  the input is cleared and \<open>isLoading\<close> is false again.
\<close>

theorem handleSend_guard_and_failure:
  "((\<forall>ch \<in> set (inputValue c). isWhiteSpace ch) \<longrightarrow> handleSend now later r c = (c, [])) \<and>
   (trim (inputValue c) \<noteq> [] \<and> chatServiceRef c = Some svc \<and> \<not> isLoading c \<and>
    sendMessage svc (inputValue c) r = Inl e \<longrightarrow>
      handleSend now later r c =
        (c\<lparr>messages := messages c @
              [\<lparr>msg_role = User, msg_text = inputValue c, timestamp = now\<rparr>],
           inputValue := [], isLoading := False\<rparr>,
         [inputValue c]))"
  by (auto simp: handleSend_def trim_blank Let_def)

theorem handleSend_guard_and_failure_witness:
  "handleSend 1 2 Rejects
     \<lparr>messages = [], inputValue = ''  '', isLoading = False,
      chatServiceRef = Some \<lparr>chat = True\<rparr>\<rparr> =
     (\<lparr>messages = [], inputValue = ''  '', isLoading = False,
       chatServiceRef = Some \<lparr>chat = True\<rparr>\<rparr>, []) \<and>
   handleSend 1 2 Rejects
     \<lparr>messages = [], inputValue = ''Bonjour'', isLoading = False,
      chatServiceRef = Some \<lparr>chat = True\<rparr>\<rparr> =
     (\<lparr>messages = [\<lparr>msg_role = User, msg_text = ''Bonjour'', timestamp = 1\<rparr>],
       inputValue = [], isLoading = False, chatServiceRef = Some \<lparr>chat = True\<rparr>\<rparr>,
      [''Bonjour''])"
proof -
  have blank: "\<forall>ch \<in> set ''  ''. isWhiteSpace ch" by (simp add: isWhiteSpace_def)
  have nonblank: "trim ''Bonjour'' \<noteq> []" by (simp add: trim_def isWhiteSpace_def)
  have fails: "sendMessage \<lparr>chat = True\<rparr> ''Bonjour'' Rejects = Inl RequestFailed"
    by (simp add: sendMessage_def)
  show ?thesis
    using blank nonblank fails
      handleSend_guard_and_failure [where c = "\<lparr>messages = [], inputValue = ''  '',
        isLoading = False, chatServiceRef = Some \<lparr>chat = True\<rparr>\<rparr>" and now = 1 and later = 2
        and r = Rejects]
      handleSend_guard_and_failure [where c = "\<lparr>messages = [], inputValue = ''Bonjour'',
        isLoading = False, chatServiceRef = Some \<lparr>chat = True\<rparr>\<rparr>" and now = 1 and later = 2
        and r = Rejects and svc = "\<lparr>chat = True\<rparr>" and e = RequestFailed]
    by simp
qed

end
